theory Spec2Isabelle
  imports Main "HOL-Library.Log_Nat"
begin

section \<open>Strings\<close>

text \<open>
  A JavaScript string is a sequence of UTF-16 code units. The model uses \<^typ>\<open>string\<close>
  and reads a \<^typ>\<open>char\<close> as the code unit of the same number, so it covers the strings
  whose code units are below 256 (ASCII and Latin-1). The built-in string operations
  below are specialised to that range.
\<close>

text \<open>
  The characters removed by \<^verbatim>\<open>String.prototype.trim\<close> and matched by \<^verbatim>\<open>\s\<close>: below 256
  these are TAB, LF, VT, FF, CR, SPACE and NO-BREAK SPACE.
\<close>

definition is_space :: "char \<Rightarrow> bool" where
  "is_space c = (c \<in> set [CHR 0x09, CHR 0x0A, CHR 0x0B, CHR 0x0C, CHR 0x0D, CHR 0x20, CHR 0xA0])"

definition trimStart :: "string \<Rightarrow> string" where
  "trimStart s = dropWhile is_space s"

definition trim :: "string \<Rightarrow> string" where
  "trim s = rev (dropWhile is_space (rev (dropWhile is_space s)))"

text \<open>
  \<^verbatim>\<open>toLowerCase\<close> on one code unit: A-Z and the Latin-1 capitals 0xC0-0xDE (without the
  multiplication sign 0xD7) map to the letter 32 places up.
\<close>

definition upper_letters :: string where
  "upper_letters = ''ABCDEFGHIJKLMNOPQRSTUVWXYZ''
     @ [CHR 0xC0, CHR 0xC1, CHR 0xC2, CHR 0xC3, CHR 0xC4, CHR 0xC5, CHR 0xC6, CHR 0xC7,
        CHR 0xC8, CHR 0xC9, CHR 0xCA, CHR 0xCB, CHR 0xCC, CHR 0xCD, CHR 0xCE, CHR 0xCF,
        CHR 0xD0, CHR 0xD1, CHR 0xD2, CHR 0xD3, CHR 0xD4, CHR 0xD5, CHR 0xD6,
        CHR 0xD8, CHR 0xD9, CHR 0xDA, CHR 0xDB, CHR 0xDC, CHR 0xDD, CHR 0xDE]"

definition lower_letters :: string where
  "lower_letters = ''abcdefghijklmnopqrstuvwxyz''
     @ [CHR 0xE0, CHR 0xE1, CHR 0xE2, CHR 0xE3, CHR 0xE4, CHR 0xE5, CHR 0xE6, CHR 0xE7,
        CHR 0xE8, CHR 0xE9, CHR 0xEA, CHR 0xEB, CHR 0xEC, CHR 0xED, CHR 0xEE, CHR 0xEF,
        CHR 0xF0, CHR 0xF1, CHR 0xF2, CHR 0xF3, CHR 0xF4, CHR 0xF5, CHR 0xF6,
        CHR 0xF8, CHR 0xF9, CHR 0xFA, CHR 0xFB, CHR 0xFC, CHR 0xFD, CHR 0xFE]"

definition lower_char :: "char \<Rightarrow> char" where
  "lower_char c = (case map_of (zip upper_letters lower_letters) c of None \<Rightarrow> c | Some d \<Rightarrow> d)"

definition toLowerCase :: "string \<Rightarrow> string" where
  "toLowerCase s = map lower_char s"

text \<open>
  \<^verbatim>\<open>toUpperCase\<close> is applied by the program only to the first letter of a state name
  taken from its own table, so it is modelled on the letters a-z; every other
  character is left as it is.
\<close>

definition upper_char :: "char \<Rightarrow> char" where
  "upper_char c =
     (case map_of (zip ''abcdefghijklmnopqrstuvwxyz'' ''ABCDEFGHIJKLMNOPQRSTUVWXYZ'') c of
        None \<Rightarrow> c | Some d \<Rightarrow> d)"

text \<open>\<^verbatim>\<open>hay.includes(needle)\<close>: the needle occurs as a contiguous run.\<close>

fun starts_with :: "string \<Rightarrow> string \<Rightarrow> bool" where
  "starts_with s [] = True"
| "starts_with [] (p # ps) = False"
| "starts_with (c # cs) (p # ps) = (c = p \<and> starts_with cs ps)"

fun str_includes :: "string \<Rightarrow> string \<Rightarrow> bool" where
  "str_includes [] needle = (needle = [])"
| "str_includes (c # cs) needle = (starts_with (c # cs) needle \<or> str_includes cs needle)"

text \<open>
  \<^verbatim>\<open>s.split(sep)\<close> for a separator that is a set of characters matched greedily
  (\<^verbatim>\<open>/[...]+/\<close>) or one at a time (\<^verbatim>\<open>' '\<close>): the pieces between the runs, with an empty
  piece before a leading and after a trailing run. The flag \<open>in_sep\<close> says that the
  character before was a separator, so a greedy separator swallows the next one too.
\<close>

fun split_acc :: "(char \<Rightarrow> bool) \<Rightarrow> bool \<Rightarrow> string \<Rightarrow> bool \<Rightarrow> string \<Rightarrow> string list" where
  "split_acc sep greedy cur in_sep [] = [rev cur]"
| "split_acc sep greedy cur in_sep (c # cs) =
     (if sep c
      then (if in_sep \<and> greedy then split_acc sep greedy cur True cs
            else rev cur # split_acc sep greedy [] True cs)
      else split_acc sep greedy (c # cur) False cs)"

definition split_on :: "(char \<Rightarrow> bool) \<Rightarrow> bool \<Rightarrow> string \<Rightarrow> string list" where
  "split_on sep greedy s = split_acc sep greedy [] False s"

text \<open>\<^verbatim>\<open>parts.join(' ')\<close>.\<close>

fun join_space :: "string list \<Rightarrow> string" where
  "join_space [] = []"
| "join_space [w] = w"
| "join_space (w # v # ws) = w @ '' '' @ join_space (v # ws)"

section \<open>The state tables\<close>

definition stateAbbreviations :: "(string \<times> string) list" where
  "stateAbbreviations =
    [(''alabama'', ''al''), (''alaska'', ''ak''), (''arizona'', ''az''), (''arkansas'', ''ar''),
     (''california'', ''ca''), (''colorado'', ''co''), (''connecticut'', ''ct''),
     (''delaware'', ''de''), (''florida'', ''fl''), (''georgia'', ''ga''),
     (''hawaii'', ''hi''), (''idaho'', ''id''), (''illinois'', ''il''), (''indiana'', ''in''),
     (''iowa'', ''ia''), (''kansas'', ''ks''), (''kentucky'', ''ky''), (''louisiana'', ''la''),
     (''maine'', ''me''), (''maryland'', ''md''), (''massachusetts'', ''ma''),
     (''michigan'', ''mi''), (''minnesota'', ''mn''), (''mississippi'', ''ms''),
     (''missouri'', ''mo''), (''montana'', ''mt''), (''nebraska'', ''ne''), (''nevada'', ''nv''),
     (''new hampshire'', ''nh''), (''new jersey'', ''nj''), (''new mexico'', ''nm''),
     (''new york'', ''ny''), (''north carolina'', ''nc''), (''north dakota'', ''nd''),
     (''ohio'', ''oh''), (''oklahoma'', ''ok''), (''oregon'', ''or''), (''pennsylvania'', ''pa''),
     (''rhode island'', ''ri''), (''south carolina'', ''sc''), (''south dakota'', ''sd''),
     (''tennessee'', ''tn''), (''texas'', ''tx''), (''utah'', ''ut''), (''vermont'', ''vt''),
     (''virginia'', ''va''), (''washington'', ''wa''), (''west virginia'', ''wv''),
     (''wisconsin'', ''wi''), (''wyoming'', ''wy'')]"

text \<open>
  \<^verbatim>\<open>reverseStateMap\<close> is filled by a loop over the keys of \<^verbatim>\<open>stateAbbreviations\<close> in
  insertion order; a later assignment to the same abbreviation replaces an earlier one.
\<close>

definition reverseStateMap :: "string \<rightharpoonup> string" where
  "reverseStateMap =
     fold (\<lambda>name m. case map_of stateAbbreviations name of
                       None \<Rightarrow> m
                     | Some abbrev \<Rightarrow> m(abbrev \<mapsto> name))
          (map fst stateAbbreviations) Map.empty"

text \<open>
  Both tables are plain objects, so a bracket lookup also finds the members inherited
  from \<^verbatim>\<open>Object.prototype\<close>. The result of a lookup is the table's own string, an
  inherited member (a function or an object: truthy, and not a string), or
  \<^verbatim>\<open>undefined\<close>.
\<close>

definition object_prototype_keys :: "string list" where
  "object_prototype_keys =
    [''constructor'', ''__defineGetter__'', ''__defineSetter__'', ''hasOwnProperty'',
     ''__lookupGetter__'', ''__lookupSetter__'', ''isPrototypeOf'', ''propertyIsEnumerable'',
     ''toString'', ''valueOf'', ''__proto__'', ''toLocaleString'']"

datatype table_entry = Own string | Inherited | Undefined

definition table_get :: "(string \<rightharpoonup> string) \<Rightarrow> string \<Rightarrow> table_entry" where
  "table_get m k =
     (case m k of
        Some v \<Rightarrow> Own v
      | None \<Rightarrow> if k \<in> set object_prototype_keys then Inherited else Undefined)"

text \<open>
  \<^verbatim>\<open>normalizeState\<close> returns \<^verbatim>\<open>stateAbbreviations[lower] || lower\<close>: the table's string when
  it is non-empty, the inherited member when the key names one, else \<^verbatim>\<open>lower\<close>.
\<close>

datatype js_value = JString string | JObject

fun normalizeState :: "string \<Rightarrow> js_value" where
  "normalizeState state =
     (if state = [] then JString []
      else let lower = trim (toLowerCase state)
           in case table_get (map_of stateAbbreviations) lower of
                Own v \<Rightarrow> if v = [] then JString lower else JString v
              | Inherited \<Rightarrow> JObject
              | Undefined \<Rightarrow> JString lower)"

datatype js_error = TypeError | FormatError string

text \<open>
  \<^verbatim>\<open>word.charAt(0).toUpperCase() + word.slice(1)\<close>; for the empty word both parts are empty.
\<close>

fun capitalize :: "string \<Rightarrow> string" where
  "capitalize [] = []"
| "capitalize (c # cs) = upper_char c # cs"

text \<open>
  \<^verbatim>\<open>getFullStateName\<close>: an inherited member is truthy and has no \<^verbatim>\<open>split\<close> method, so the
  call on it throws a TypeError.
\<close>

fun getFullStateName :: "string \<Rightarrow> js_error + string" where
  "getFullStateName state =
     (if state = [] then Inr []
      else let lower = trim (toLowerCase state)
           in case table_get reverseStateMap lower of
                Own v \<Rightarrow>
                  if v = [] then Inr state
                  else Inr (join_space (map capitalize (split_on (\<lambda>c. c = CHR '' '') False v)))
              | Inherited \<Rightarrow> Inl TypeError
              | Undefined \<Rightarrow> Inr state)"

section \<open>The table parser: lines and fields\<close>

text \<open>
  \<^verbatim>\<open>text.split(/\r?\n/)\<close>: every LF ends a piece, and a CR directly before it belongs to
  the separator.
\<close>

fun strip_cr :: "string \<Rightarrow> string" where
  "strip_cr [] = []"
| "strip_cr (c # cs) = (if c = CHR 0x0D then cs else c # cs)"

fun split_lines_acc :: "string \<Rightarrow> string \<Rightarrow> string list" where
  "split_lines_acc cur [] = [rev cur]"
| "split_lines_acc cur (c # cs) =
     (if c = CHR 0x0A then rev (strip_cr cur) # split_lines_acc [] cs
      else split_lines_acc (c # cur) cs)"

definition split_lines :: "string \<Rightarrow> string list" where
  "split_lines t = split_lines_acc [] t"

definition nonblank_lines :: "string \<Rightarrow> string list" where
  "nonblank_lines t = filter (\<lambda>line. trim line \<noteq> []) (split_lines t)"

text \<open>
  The inner loop of \<^verbatim>\<open>parseCSV\<close> over one line. The state is the row so far, the current
  field (kept reversed) and \<^verbatim>\<open>inQuotes\<close>; on a doubled quote inside quotes the loop
  also skips the next character.
\<close>

fun parse_fields :: "string list \<Rightarrow> string \<Rightarrow> bool \<Rightarrow> string \<Rightarrow> string list" where
  "parse_fields row cur inQuotes [] = row @ [trim (rev cur)]"
| "parse_fields row cur inQuotes [c] =
     (if c = CHR 0x22 then parse_fields row cur (\<not> inQuotes) []
      else if c = CHR '','' \<and> \<not> inQuotes then parse_fields (row @ [trim (rev cur)]) [] inQuotes []
      else parse_fields row (c # cur) inQuotes [])"
| "parse_fields row cur inQuotes (c # nextChar # cs) =
     (if c = CHR 0x22 then
        (if inQuotes \<and> nextChar = CHR 0x22 then parse_fields row (CHR 0x22 # cur) inQuotes cs
         else parse_fields row cur (\<not> inQuotes) (nextChar # cs))
      else if c = CHR '','' \<and> \<not> inQuotes
        then parse_fields (row @ [trim (rev cur)]) [] inQuotes (nextChar # cs)
      else parse_fields row (c # cur) inQuotes (nextChar # cs))"

definition parse_line :: "string \<Rightarrow> string list" where
  "parse_line line = parse_fields [] [] False line"

section \<open>Numbers\<close>

text \<open>
  A JavaScript number is an IEEE-754 double. \<open>Fin q\<close> is the finite double whose exact
  value is the rational \<open>q\<close>; the two zeros are one value, since the program only
  compares numbers, tests them for truth and prints them, and none of these tells the
  zeros apart.
\<close>

datatype jsnum = NaN | Fin rat | PInf | NInf

definition pow2 :: "int \<Rightarrow> rat" where
  "pow2 e = (if 0 \<le> e then 2 ^ nat e else 1 / 2 ^ nat (- e))"

definition pow10 :: "int \<Rightarrow> rat" where
  "pow10 e = (if 0 \<le> e then 10 ^ nat e else 1 / 10 ^ nat (- e))"

text \<open>
  For \<open>q > 0\<close>: the integer \<open>e\<close> with \<open>b ^ e \<le> q < b ^ (e + 1)\<close>. \<open>floorlog b n\<close> is the number
  of digits of \<open>n\<close> in base \<open>b\<close>.
\<close>

definition ilog :: "nat \<Rightarrow> rat \<Rightarrow> int" where
  "ilog b q =
     (if 1 \<le> q then int (floorlog b (nat \<lfloor>q\<rfloor>)) - 1
      else - int (floorlog b (nat (\<lceil>1 / q\<rceil> - 1))))"

definition round_half_even :: "rat \<Rightarrow> int" where
  "round_half_even x =
     (let f = \<lfloor>x\<rfloor>; d = x - of_int f
      in if d < 1 / 2 then f else if 1 / 2 < d then f + 1 else if even f then f else f + 1)"

text \<open>
  Rounding a rational to the nearest double, ties to even: 53 significant bits, the
  least exponent -1022 (below it the spacing stays \<open>2 ^ -1074\<close>), and infinity from
  \<open>2 ^ 1024\<close> on.
\<close>

definition round_double :: "rat \<Rightarrow> jsnum" where
  "round_double q =
     (if q = 0 then Fin 0
      else let a = \<bar>q\<bar>;
               e = max (ilog 2 a) (- 1022);
               ulp = pow2 (e - 52);
               v = of_int (round_half_even (a / ulp)) * ulp
           in if pow2 1024 \<le> v then (if 0 < q then PInf else NInf)
              else Fin (if 0 < q then v else - v))"

definition isNaN :: "jsnum \<Rightarrow> bool" where
  "isNaN x = (x = NaN)"

definition isFinite :: "jsnum \<Rightarrow> bool" where
  "isFinite x = (case x of Fin q \<Rightarrow> True | _ \<Rightarrow> False)"

text \<open>The relational operators; every comparison with \<open>NaN\<close> is false.\<close>

fun js_lt :: "jsnum \<Rightarrow> jsnum \<Rightarrow> bool" where
  "js_lt NaN y = False"
| "js_lt x NaN = False"
| "js_lt (Fin a) (Fin b) = (a < b)"
| "js_lt (Fin a) PInf = True"
| "js_lt (Fin a) NInf = False"
| "js_lt PInf y = False"
| "js_lt NInf NInf = False"
| "js_lt NInf y = True"

definition js_gt :: "jsnum \<Rightarrow> jsnum \<Rightarrow> bool" where
  "js_gt x y = js_lt y x"

definition js_ge :: "jsnum \<Rightarrow> jsnum \<Rightarrow> bool" where
  "js_ge x y = (x \<noteq> NaN \<and> y \<noteq> NaN \<and> \<not> js_lt x y)"

text \<open>Subtraction, rounded to a double.\<close>

fun js_sub :: "jsnum \<Rightarrow> jsnum \<Rightarrow> jsnum" where
  "js_sub NaN y = NaN"
| "js_sub x NaN = NaN"
| "js_sub (Fin a) (Fin b) = round_double (a - b)"
| "js_sub (Fin a) PInf = NInf"
| "js_sub (Fin a) NInf = PInf"
| "js_sub PInf PInf = NaN"
| "js_sub PInf y = PInf"
| "js_sub NInf NInf = NaN"
| "js_sub NInf y = NInf"

subsection \<open>Number to string\<close>

definition digit_char :: "nat \<Rightarrow> char" where
  "digit_char d = ''0123456789'' ! (d mod 10)"

fun dec_string :: "nat \<Rightarrow> string" where
  "dec_string n = (if n < 10 then [digit_char n] else dec_string (n div 10) @ [digit_char (n mod 10)])"

definition strip_zeros :: "string \<Rightarrow> string" where
  "strip_zeros ds = rev (dropWhile (\<lambda>c. c = CHR ''0'') (rev ds))"

text \<open>
  \<^verbatim>\<open>Number::toString\<close> prints the shortest decimal that reads back as the same double, and
  of the candidates with that many digits the one nearest to the value. For a positive
  double \<open>q\<close> with \<open>10 ^ (n0 - 1) \<le> q < 10 ^ n0\<close> the search tries \<open>k = 1, 2, ...\<close> digits; the
  two candidates with \<open>k\<close> digits are \<open>q\<close> scaled to \<open>k\<close> integer digits and rounded down
  and up. Seventeen digits always suffice. The result is the integer \<open>s\<close> and the \<open>k\<close>
  it was found at.
\<close>

fun shortest_digits :: "nat \<Rightarrow> nat \<Rightarrow> rat \<Rightarrow> int \<Rightarrow> int \<times> nat" where
  "shortest_digits 0 k q n0 = (round_half_even (q * pow10 (int k - n0)), k)"
| "shortest_digits (Suc fuel) k q n0 =
     (let t = q * pow10 (int k - n0);
          lo = \<lfloor>t\<rfloor>;
          hi = \<lceil>t\<rceil>;
          ok_lo = (round_double (of_int lo * pow10 (n0 - int k)) = Fin q);
          ok_hi = (round_double (of_int hi * pow10 (n0 - int k)) = Fin q)
      in if ok_lo \<and> ok_hi then
           (if t - of_int lo < of_int hi - t then (lo, k)
            else if of_int hi - t < t - of_int lo then (hi, k)
            else if even lo then (lo, k) else (hi, k))
         else if ok_lo then (lo, k)
         else if ok_hi then (hi, k)
         else shortest_digits fuel (Suc k) q n0)"

text \<open>
  The layout of the digits: \<open>ds\<close> are the \<open>k\<close> significant digits and \<open>n\<close> the position of
  the decimal point (the value is \<open>0.ds * 10 ^ n\<close>).
\<close>

definition layout_digits :: "string \<Rightarrow> int \<Rightarrow> string" where
  "layout_digits ds n =
     (let k = int (length ds)
      in if k \<le> n \<and> n \<le> 21 then ds @ replicate (nat (n - k)) (CHR ''0'')
         else if 0 < n \<and> n \<le> 21 then take (nat n) ds @ ''.'' @ drop (nat n) ds
         else if - 6 < n \<and> n \<le> 0 then ''0.'' @ replicate (nat (- n)) (CHR ''0'') @ ds
         else let e = n - 1;
                  ex = (if e < 0 then ''-'' else ''+'') @ dec_string (nat \<bar>e\<bar>)
              in if k = 1 then ds @ ''e'' @ ex
                 else take 1 ds @ ''.'' @ drop 1 ds @ ''e'' @ ex)"

definition positive_to_string :: "rat \<Rightarrow> string" where
  "positive_to_string q =
     (let n0 = ilog 10 q + 1;
          (s, k) = shortest_digits 17 1 q n0;
          all_ds = dec_string (nat s);
          n = n0 + int (length all_ds) - int k
      in layout_digits (strip_zeros all_ds) n)"

definition Number_toString :: "jsnum \<Rightarrow> string" where
  "Number_toString x =
     (case x of
        NaN \<Rightarrow> ''NaN''
      | PInf \<Rightarrow> ''Infinity''
      | NInf \<Rightarrow> ''-Infinity''
      | Fin q \<Rightarrow> if q = 0 then ''0''
                 else if q < 0 then ''-'' @ positive_to_string (- q)
                 else positive_to_string q)"

subsection \<open>String to number\<close>

definition is_digit :: "char \<Rightarrow> bool" where
  "is_digit c = (c \<in> set ''0123456789'')"

text \<open>The digits of the bases up to 16, with their values; letters in either case.\<close>

definition digit_table :: "(char \<times> nat) list" where
  "digit_table =
     [(CHR ''0'', 0), (CHR ''1'', 1), (CHR ''2'', 2), (CHR ''3'', 3), (CHR ''4'', 4),
      (CHR ''5'', 5), (CHR ''6'', 6), (CHR ''7'', 7), (CHR ''8'', 8), (CHR ''9'', 9),
      (CHR ''a'', 10), (CHR ''b'', 11), (CHR ''c'', 12), (CHR ''d'', 13), (CHR ''e'', 14),
      (CHR ''f'', 15),
      (CHR ''A'', 10), (CHR ''B'', 11), (CHR ''C'', 12), (CHR ''D'', 13), (CHR ''E'', 14),
      (CHR ''F'', 15)]"

definition digit_value :: "char \<Rightarrow> nat" where
  "digit_value c = (case map_of digit_table c of Some d \<Rightarrow> d | None \<Rightarrow> 0)"

definition digits_value :: "nat \<Rightarrow> string \<Rightarrow> nat" where
  "digits_value base ds = foldl (\<lambda>acc c. acc * base + digit_value c) 0 ds"

text \<open>
  The exponent part \<^verbatim>\<open>e\<close>, optional sign, at least one digit; without a digit there is
  no exponent part and nothing is consumed.
\<close>

definition scan_exponent :: "string \<Rightarrow> int \<times> string" where
  "scan_exponent s =
     (case s of
        [] \<Rightarrow> (0, s)
      | c # r \<Rightarrow>
          if c = CHR ''e'' \<or> c = CHR ''E'' then
            (let (neg, r1) = (case r of
                                [] \<Rightarrow> (False, r)
                              | d # r' \<Rightarrow> if d = CHR ''-'' then (True, r')
                                          else if d = CHR ''+'' then (False, r') else (False, r));
                 ds = takeWhile is_digit r1
             in if ds = [] then (0, s)
                else ((if neg then - int (digits_value 10 ds) else int (digits_value 10 ds)),
                      dropWhile is_digit r1))
          else (0, s))"

text \<open>
  The value of a literal is its exact decimal value, rounded once to a double. (The
  language standard lets an engine cut a literal after its 20th significant digit
  first; the engines in use do not.)
\<close>

text \<open>
  The longest prefix that is an unsigned decimal literal (digits, an optional point
  and fraction, an optional exponent part; at least one digit before or after the
  point), with its mathematical value and the rest of the string.
\<close>

definition scan_unsigned :: "string \<Rightarrow> (rat \<times> string) option" where
  "scan_unsigned s =
     (let ip = takeWhile is_digit s;
          r1 = dropWhile is_digit s;
          (fp, r2) = (case r1 of
                        [] \<Rightarrow> ([], r1)
                      | c # r \<Rightarrow> if c = CHR ''.'' then (takeWhile is_digit r, dropWhile is_digit r)
                                 else ([], r1))
      in if ip = [] \<and> fp = [] then None
         else let (ex, r3) = scan_exponent r2;
                  m = of_nat (digits_value 10 (ip @ fp)) * pow10 (- int (length fp))
              in Some (m * pow10 ex, r3))"

text \<open>
  The longest prefix that is a \<^verbatim>\<open>StrDecimalLiteral\<close>: an optional sign, then \<^verbatim>\<open>Infinity\<close> or
  an unsigned decimal literal.
\<close>

definition scan_decimal :: "string \<Rightarrow> (jsnum \<times> string) option" where
  "scan_decimal s =
     (let (neg, r) = (case s of
                        [] \<Rightarrow> (False, s)
                      | c # r' \<Rightarrow> if c = CHR ''-'' then (True, r')
                                  else if c = CHR ''+'' then (False, r') else (False, s))
      in if starts_with r ''Infinity'' then Some (if neg then NInf else PInf, drop 8 r)
         else case scan_unsigned r of
                None \<Rightarrow> None
              | Some (v, rest) \<Rightarrow> Some (round_double (if neg then - v else v), rest))"

text \<open>\<^verbatim>\<open>parseFloat\<close> of a string: leading white space is skipped, then the longest prefix.\<close>

definition parseFloat_string :: "string \<Rightarrow> jsnum" where
  "parseFloat_string s =
     (case scan_decimal (trimStart s) of None \<Rightarrow> NaN | Some (v, rest) \<Rightarrow> v)"

text \<open>
  \<^verbatim>\<open>Number(s)\<close>, used by \<^verbatim>\<open>isNaN(s)\<close>: white space around is skipped, the empty string is 0,
  and the whole rest has to be one literal, either decimal or an unsigned integer
  with prefix \<^verbatim>\<open>0x\<close>, \<^verbatim>\<open>0o\<close> or \<^verbatim>\<open>0b\<close>.
\<close>

definition radix_of :: "char \<Rightarrow> nat option" where
  "radix_of c =
     (if c = CHR ''x'' \<or> c = CHR ''X'' then Some 16
      else if c = CHR ''o'' \<or> c = CHR ''O'' then Some 8
      else if c = CHR ''b'' \<or> c = CHR ''B'' then Some 2
      else None)"

definition is_radix_digit :: "nat \<Rightarrow> char \<Rightarrow> bool" where
  "is_radix_digit base c = (case map_of digit_table c of Some d \<Rightarrow> d < base | None \<Rightarrow> False)"

definition scan_radix :: "string \<Rightarrow> jsnum option" where
  "scan_radix t =
     (case t of
        z # p # ds \<Rightarrow>
          (if z = CHR ''0'' then
             (case radix_of p of
                None \<Rightarrow> None
              | Some base \<Rightarrow>
                  if ds \<noteq> [] \<and> list_all (is_radix_digit base) ds
                  then Some (round_double (of_nat (digits_value base ds)))
                  else Some NaN)
           else None)
      | _ \<Rightarrow> None)"

definition StringToNumber :: "string \<Rightarrow> jsnum" where
  "StringToNumber s =
     (let t = trim s
      in if t = [] then Fin 0
         else case scan_radix t of
                Some v \<Rightarrow> v
              | None \<Rightarrow> (case scan_decimal t of
                           Some (v, []) \<Rightarrow> v
                         | _ \<Rightarrow> NaN))"

section \<open>Cells and records\<close>

text \<open>
  A cell of a parsed row is a number or a string. A row is a plain object from column
  name to cell; a column that the row does not have reads as \<^verbatim>\<open>undefined\<close>, here \<open>None\<close>.
  The program reads rows only under fixed column names, none of which is a member of
  \<^verbatim>\<open>Object.prototype\<close>.
\<close>

datatype cell = Num jsnum | Str string

type_synonym lender = "string \<rightharpoonup> cell"

text \<open>Truth of a value: \<^verbatim>\<open>undefined\<close>, 0, \<open>NaN\<close> and the empty string are false.\<close>

fun truthy :: "cell option \<Rightarrow> bool" where
  "truthy None = False"
| "truthy (Some (Num x)) = (x \<noteq> NaN \<and> x \<noteq> Fin 0)"
| "truthy (Some (Str s)) = (s \<noteq> [])"

text \<open>\<^verbatim>\<open>String(v)\<close> and \<^verbatim>\<open>${v}\<close>.\<close>

fun ToString :: "cell option \<Rightarrow> string" where
  "ToString None = ''undefined''"
| "ToString (Some (Num x)) = Number_toString x"
| "ToString (Some (Str s)) = s"

text \<open>\<^verbatim>\<open>v || ''\<close>.\<close>

definition or_empty :: "cell option \<Rightarrow> cell option" where
  "or_empty v = (if truthy v then v else Some (Str []))"

text \<open>\<^verbatim>\<open>parseFloat(v)\<close> first converts its argument to a string.\<close>

definition parseFloat :: "cell option \<Rightarrow> jsnum" where
  "parseFloat v = parseFloat_string (ToString v)"

record criteria =
  requestedPosition :: jsnum
  tib :: jsnum
  monthlyRevenue :: jsnum
  fico :: jsnum
  state :: string
  industry :: string
  isSoleProp :: bool

section \<open>The rule checks\<close>

text \<open>
  A check returns a blocking reason or \<^verbatim>\<open>null\<close>, here \<open>None\<close>. The engine tests the reason
  for truth, and the empty string is false too.
\<close>

definition no_rule :: "string option \<Rightarrow> bool" where
  "no_rule r = (r = None \<or> r = Some [])"

definition checkCustomRestrictions :: "lender \<Rightarrow> criteria \<Rightarrow> string option" where
  "checkCustomRestrictions lender c =
     (let lenderName = toLowerCase (ToString (or_empty (lender ''Lender Name'')));
          merchantIndustry = toLowerCase (industry c);
          trucking = (str_includes merchantIndustry ''truck''
                      \<or> str_includes merchantIndustry ''transport'')
      in if str_includes lenderName ''lexio'' \<and> trucking
            \<and> js_ge (requestedPosition c) (Fin 3)
         then Some ''Industry - Trucking 1st-2nd position only''
         else if str_includes lenderName ''fyncap'' \<and> trucking
            \<and> normalizeState (state c) = JString ''il''
         then Some ''Industry - Trucking not accepted in IL''
         else if str_includes lenderName ''blackbridge'' \<and> trucking
            \<and> normalizeState (state c) = JString ''il''
         then Some ''Industry - Trucking not accepted in IL''
         else if str_includes lenderName ''smarter merchant'' \<and> isSoleProp c
            \<and> normalizeState (state c) \<in> set [JString ''il'', JString ''ar'', JString ''ny'']
         then Some (''Industry - Sole props not accepted in '' @ state c)
         else if str_includes lenderName ''idea financial''
            \<and> str_includes merchantIndustry ''construction''
            \<and> js_lt (tib c) (Fin 84)
         then Some ''Industry - Construction requires 7+ years TIB''
         else None)"

text \<open>
  \<^verbatim>\<open>checkStateRestrictions\<close> calls \<^verbatim>\<open>getFullStateName\<close> before it compares, so the
  TypeError of that call leaves the check.
\<close>

definition checkStateRestrictions :: "lender \<Rightarrow> criteria \<Rightarrow> js_error + string option" where
  "checkStateRestrictions lender c =
     (let stateRestrictions = ToString (or_empty (lender ''State_Restrictions''))
      in if stateRestrictions = [] then Inr None
         else let merchantState = trim (state c)
              in case getFullStateName merchantState of
                   Inl e \<Rightarrow> Inl e
                 | Inr fullStateName \<Rightarrow>
                     if str_includes stateRestrictions merchantState
                        \<or> str_includes stateRestrictions fullStateName
                     then Inr (Some (''State - '' @ stateRestrictions))
                     else Inr None)"

definition checkSolePropRestrictions :: "lender \<Rightarrow> string option" where
  "checkSolePropRestrictions lender =
     (let requirements = toLowerCase (ToString (or_empty (lender ''Other_Key_Requirements'')));
          prohibited = toLowerCase (ToString (or_empty (lender ''Prohibited_Industries'')));
          allText = requirements @ '' '' @ prohibited
      in if str_includes allText ''no sole prop''
            \<or> str_includes allText ''corp only''
            \<or> str_includes allText ''sole props''
         then Some ''Sole Prop - Not accepted''
         else None)"

text \<open>
  The industry string is split at \<^verbatim>\<open>/[\s\/,]+/\<close>; the loop returns at the first keyword
  that blocks, and every keyword gives the same reason.
\<close>

definition industry_separator :: "char \<Rightarrow> bool" where
  "industry_separator ch = (is_space ch \<or> ch = CHR ''/'' \<or> ch = CHR '','')"

definition checkIndustryRestrictions :: "lender \<Rightarrow> criteria \<Rightarrow> string option" where
  "checkIndustryRestrictions lender c =
     (let prohibited = toLowerCase (ToString (or_empty (lender ''Prohibited_Industries'')))
      in if prohibited = [] then None
         else let merchantIndustry = toLowerCase (industry c);
                  industryKeywords = split_on industry_separator True merchantIndustry
              in if list_ex (\<lambda>keyword. 3 < length keyword
                                       \<and> str_includes prohibited keyword
                                       \<and> \<not> str_includes prohibited ''case by case'')
                            industryKeywords
                 then Some (''Industry - '' @ ToString (lender ''Prohibited_Industries''))
                 else None)"

text \<open>
  \<^verbatim>\<open>toLocaleString\<close> depends on the locale of the host, so the function that prints the
  revenue is a parameter of the check and of the engine.
\<close>

definition checkMinimumRequirements ::
    "(jsnum \<Rightarrow> string) \<Rightarrow> lender \<Rightarrow> criteria \<Rightarrow> string option" where
  "checkMinimumRequirements toLocaleString lender c =
     (let minTib = parseFloat (lender ''Min_TIB_Months'')
      in if \<not> isNaN minTib \<and> js_lt (tib c) minTib
         then Some (''TIB - Min '' @ Number_toString minTib @ '' months'')
         else let minRevenue = parseFloat (lender ''Min_Monthly_Revenue'')
              in if \<not> isNaN minRevenue \<and> js_lt (monthlyRevenue c) minRevenue
                 then Some (''Revenue - Min $'' @ toLocaleString minRevenue)
                 else let minFico = parseFloat (lender ''Min_FICO'')
                      in if \<not> isNaN minFico \<and> js_lt (fico c) (js_sub minFico (Fin 20))
                         then Some (''FICO - Min '' @ Number_toString minFico
                                    @ '' (with 20pt tolerance)'')
                         else None)"

section \<open>The classification engine\<close>

text \<open>
  What the body of the loop in \<^verbatim>\<open>processLenders\<close> does with one lender: one of the three
  early returns that count it as dropped, a push to one of the two lists, or an
  exception, which the \<^verbatim>\<open>catch\<close> block counts as dropped and records.
\<close>

datatype outcome =
    Qualified lender
  | NonQualified string string
  | AutoDropped
  | Faulted js_error

definition invalid_name :: "string \<Rightarrow> bool" where
  "invalid_name lenderName =
     (str_includes lenderName ''$''
      \<or> (lenderName \<noteq> [] \<and> list_all is_digit lenderName)
      \<or> str_includes (toLowerCase lenderName) ''total''
      \<or> str_includes (toLowerCase lenderName) ''summary'')"

definition position_rule :: "lender \<Rightarrow> criteria \<Rightarrow> string option" where
  "position_rule lender c =
     (let posMin = parseFloat (lender ''pos_min'');
          posMax = parseFloat (lender ''pos_max'')
      in if js_lt (requestedPosition c) posMin \<or> js_gt (requestedPosition c) posMax
         then Some (''Position - '' @ (''Positions '' @ Number_toString posMin @ ''-''
                                      @ Number_toString posMax))
         else None)"

definition classify :: "(jsnum \<Rightarrow> string) \<Rightarrow> criteria \<Rightarrow> lender \<Rightarrow> outcome" where
  "classify toLocaleString c lender =
     (let lenderName = trim (ToString (or_empty (lender ''Lender Name'')))
      in if lenderName = [] \<or> length lenderName < 2 then AutoDropped
         else if invalid_name lenderName then AutoDropped
         else if isNaN (parseFloat (lender ''pos_min'')) \<or> isNaN (parseFloat (lender ''pos_max''))
           then AutoDropped
         else
           let r1 = position_rule lender c;
               r2 = (if no_rule r1 then checkCustomRestrictions lender c else r1)
           in case (if no_rule r2 then checkStateRestrictions lender c else Inr r2) of
                Inl e \<Rightarrow> Faulted e
              | Inr r3 \<Rightarrow>
                  let r4 = (if no_rule r3 \<and> isSoleProp c
                            then checkSolePropRestrictions lender else r3);
                      r5 = (if no_rule r4 then checkIndustryRestrictions lender c else r4);
                      r6 = (if no_rule r5
                            then checkMinimumRequirements toLocaleString lender c else r5)
                  in if no_rule r6 then Qualified lender
                     else NonQualified lenderName (the r6))"

text \<open>
  The loop state of \<^verbatim>\<open>processLenders\<close>. A diagnostic is the number of the row (from 1)
  and the error caught there.
\<close>

record results =
  qualifiedLenders :: "lender list"
  nonQualifiedLenders :: "(string \<times> string) list"
  autoDroppedCount :: nat
  processingErrors :: "(nat \<times> js_error) list"

definition record_outcome :: "nat \<Rightarrow> outcome \<Rightarrow> results \<Rightarrow> results" where
  "record_outcome index out r =
     (case out of
        Qualified l \<Rightarrow> r\<lparr>qualifiedLenders := qualifiedLenders r @ [l]\<rparr>
      | NonQualified name rule \<Rightarrow> r\<lparr>nonQualifiedLenders := nonQualifiedLenders r @ [(name, rule)]\<rparr>
      | AutoDropped \<Rightarrow> r\<lparr>autoDroppedCount := autoDroppedCount r + 1\<rparr>
      | Faulted e \<Rightarrow> r\<lparr>processingErrors := processingErrors r @ [(index + 1, e)],
                       autoDroppedCount := autoDroppedCount r + 1\<rparr>)"

fun run_lenders ::
    "(jsnum \<Rightarrow> string) \<Rightarrow> criteria \<Rightarrow> nat \<Rightarrow> lender list \<Rightarrow> results \<Rightarrow> results" where
  "run_lenders toLocaleString c index [] r = r"
| "run_lenders toLocaleString c index (l # ls) r =
     run_lenders toLocaleString c (index + 1) ls
       (record_outcome index (classify toLocaleString c l) r)"

text \<open>
  The global variables of the program, and what \<^verbatim>\<open>processLenders\<close> hands to the display:
  the error message when no data is loaded, else the four results. The function
  returns the globals as it leaves them. (With \<^verbatim>\<open>debugMode\<close> set it also writes the
  diagnostics to the console, which is not part of the state.)
\<close>

record globals =
  csvData :: "lender list option"
  debugMode :: bool

datatype display = DisplayError string | DisplayResults results

definition empty_results :: results where
  "empty_results = \<lparr>qualifiedLenders = [], nonQualifiedLenders = [],
                     autoDroppedCount = 0, processingErrors = []\<rparr>"

definition processLenders ::
    "(jsnum \<Rightarrow> string) \<Rightarrow> criteria \<Rightarrow> globals \<Rightarrow> display \<times> globals" where
  "processLenders toLocaleString c g =
     (case csvData g of
        None \<Rightarrow> (DisplayError ''No CSV data loaded'', g)
      | Some rows \<Rightarrow>
          if length rows = 0 then (DisplayError ''No CSV data loaded'', g)
          else (DisplayResults (run_lenders toLocaleString c 0 rows empty_results), g))"

section \<open>The table parser: rows\<close>

text \<open>
  The cell of a data row under the header at \<open>index\<close>: \<^verbatim>\<open>result[i][index] || ''\<close>, trimmed,
  and turned into a number when \<^verbatim>\<open>isNaN\<close> rejects it not and \<^verbatim>\<open>parseFloat\<close> gives a finite
  number.
\<close>

definition field_at :: "string list \<Rightarrow> nat \<Rightarrow> string" where
  "field_at cells index = (if index < length cells then cells ! index else [])"

definition convert_cell :: "string \<Rightarrow> cell" where
  "convert_cell raw =
     (let v = trim raw
      in if v \<noteq> [] \<and> \<not> isNaN (StringToNumber v) \<and> v \<noteq> []
         then (let num = parseFloat_string v
               in if \<not> isNaN num \<and> isFinite num then Num num else Str v)
         else Str v)"

text \<open>
  \<^verbatim>\<open>row[header] = value\<close> on a plain object: the name \<^verbatim>\<open>__proto__\<close> is the inherited setter,
  which ignores a number or string and creates no property.
\<close>

definition set_property :: "lender \<Rightarrow> string \<Rightarrow> cell \<Rightarrow> lender" where
  "set_property row header v = (if header = ''__proto__'' then row else row(header \<mapsto> v))"

fun fill_row :: "string list \<Rightarrow> nat \<Rightarrow> string list \<Rightarrow> lender \<Rightarrow> lender" where
  "fill_row [] index cells row = row"
| "fill_row (header # hs) index cells row =
     fill_row hs (index + 1) cells (set_property row header (convert_cell (field_at cells index)))"

definition make_row :: "string list \<Rightarrow> string list \<Rightarrow> lender" where
  "make_row headers cells = fill_row headers 0 cells Map.empty"

definition has_lender_name :: "lender \<Rightarrow> bool" where
  "has_lender_name row =
     (truthy (row ''Lender Name'') \<and> trim (ToString (row ''Lender Name'')) \<noteq> [])"

text \<open>
  \<^verbatim>\<open>parseCSV\<close>. The only exception is the one thrown for fewer than two lines; the \<^verbatim>\<open>catch\<close>
  block throws it again with a prefix.
\<close>

definition parseCSV :: "string \<Rightarrow> js_error + lender list" where
  "parseCSV t =
     (let lines = nonblank_lines t
      in if length lines < 2
         then Inl (FormatError (''CSV parsing failed: ''
                                @ ''CSV must have at least a header row and one data row''))
         else let result = map parse_line lines;
                  headers = map trim (hd result)
              in Inr (filter has_lender_name (map (make_row headers) (tl result))))"

section \<open>Notions used to state the properties\<close>

text \<open>
  The lines of a text, taken independently of the parser: the pieces between line
  feeds. A piece is blank when all its characters are white space (a carriage return
  before the line feed is white space).
\<close>

fun lf_segments :: "string \<Rightarrow> string list" where
  "lf_segments [] = [[]]"
| "lf_segments (c # cs) =
     (if c = CHR 0x0A then [] # lf_segments cs
      else case lf_segments cs of
             [] \<Rightarrow> [[c]]
           | seg # segs \<Rightarrow> (c # seg) # segs)"

definition has_visible :: "string \<Rightarrow> bool" where
  "has_visible s = list_ex (\<lambda>c. \<not> is_space c) s"

definition count_nonblank :: "string \<Rightarrow> nat" where
  "count_nonblank t = length (filter has_visible (lf_segments t))"

text \<open>The two-letter codes the program knows: the values of its table.\<close>

definition known_codes :: "string list" where
  "known_codes = map snd stateAbbreviations"

text \<open>
  The name the engine works with, and the three tests that come before the rule checks.
\<close>

definition lender_name :: "lender \<Rightarrow> string" where
  "lender_name l = trim (ToString (or_empty (l ''Lender Name'')))"

definition passes_validation :: "lender \<Rightarrow> bool" where
  "passes_validation l =
     (2 \<le> length (lender_name l) \<and> \<not> invalid_name (lender_name l)
      \<and> \<not> isNaN (parseFloat (l ''pos_min'')) \<and> \<not> isNaN (parseFloat (l ''pos_max'')))"

text \<open>
  The conditions for dropping a row as the engine tests them: the only currency
  symbol it looks for is the dollar sign.
\<close>

definition drop_condition :: "lender \<Rightarrow> bool" where
  "drop_condition l =
     (lender_name l = [] \<or> length (lender_name l) < 2
      \<or> str_includes (lender_name l) ''$''
      \<or> (lender_name l \<noteq> [] \<and> list_all is_digit (lender_name l))
      \<or> str_includes (toLowerCase (lender_name l)) ''total''
      \<or> str_includes (toLowerCase (lender_name l)) ''summary''
      \<or> isNaN (parseFloat (l ''pos_min'')) \<or> isNaN (parseFloat (l ''pos_max'')))"

text \<open>
  The same conditions read with any currency symbol: below 256 the characters of the
  Unicode category Sc are the dollar, cent, pound, currency and yen signs.
\<close>

definition is_currency_symbol :: "char \<Rightarrow> bool" where
  "is_currency_symbol ch = (ch \<in> set [CHR ''$'', CHR 0xA2, CHR 0xA3, CHR 0xA4, CHR 0xA5])"

definition drop_condition_any_currency :: "lender \<Rightarrow> bool" where
  "drop_condition_any_currency l =
     (lender_name l = [] \<or> length (lender_name l) < 2
      \<or> list_ex is_currency_symbol (lender_name l)
      \<or> (lender_name l \<noteq> [] \<and> list_all is_digit (lender_name l))
      \<or> str_includes (toLowerCase (lender_name l)) ''total''
      \<or> str_includes (toLowerCase (lender_name l)) ''summary''
      \<or> isNaN (parseFloat (l ''pos_min'')) \<or> isNaN (parseFloat (l ''pos_max'')))"

text \<open>
  First objection wins: the results of the checks in their order, and the first of
  them that is a reason or an exception.
\<close>

fun first_objection :: "(js_error + string option) list \<Rightarrow> js_error + string option" where
  "first_objection [] = Inr None"
| "first_objection (Inl e # rest) = Inl e"
| "first_objection (Inr None # rest) = first_objection rest"
| "first_objection (Inr (Some reason) # rest) = Inr (Some reason)"

definition rule_chain ::
    "(jsnum \<Rightarrow> string) \<Rightarrow> criteria \<Rightarrow> lender \<Rightarrow> (js_error + string option) list" where
  "rule_chain toLocaleString c l =
     [Inr (position_rule l c),
      Inr (checkCustomRestrictions l c),
      checkStateRestrictions l c,
      Inr (if isSoleProp c then checkSolePropRestrictions l else None),
      Inr (checkIndustryRestrictions l c),
      Inr (checkMinimumRequirements toLocaleString l c)]"

text \<open>The three buckets; a caught exception counts as dropped.\<close>

fun is_qualified :: "outcome \<Rightarrow> bool" where
  "is_qualified (Qualified l) = True"
| "is_qualified out = False"

fun is_non_qualified :: "outcome \<Rightarrow> bool" where
  "is_non_qualified (NonQualified name rule) = True"
| "is_non_qualified out = False"

fun is_dropped :: "outcome \<Rightarrow> bool" where
  "is_dropped AutoDropped = True"
| "is_dropped (Faulted e) = True"
| "is_dropped out = False"

text \<open>
  The FICO check is the last part of \<^verbatim>\<open>checkMinimumRequirements\<close>: it is reached when the
  two thresholds before it do not object, and it blocks by returning its own reason.
\<close>

definition earlier_thresholds_pass :: "lender \<Rightarrow> criteria \<Rightarrow> bool" where
  "earlier_thresholds_pass l c =
     (\<not> (\<not> isNaN (parseFloat (l ''Min_TIB_Months''))
          \<and> js_lt (tib c) (parseFloat (l ''Min_TIB_Months'')))
      \<and> \<not> (\<not> isNaN (parseFloat (l ''Min_Monthly_Revenue''))
             \<and> js_lt (monthlyRevenue c) (parseFloat (l ''Min_Monthly_Revenue''))))"

definition fico_reason :: "jsnum \<Rightarrow> string" where
  "fico_reason m = ''FICO - Min '' @ Number_toString m @ '' (with 20pt tolerance)''"

definition fico_blocks :: "(jsnum \<Rightarrow> string) \<Rightarrow> lender \<Rightarrow> criteria \<Rightarrow> bool" where
  "fico_blocks toLocaleString l c =
     (checkMinimumRequirements toLocaleString l c
        = Some (fico_reason (parseFloat (l ''Min_FICO''))))"

text \<open>
  A string that as a whole is a decimal literal with a finite value.
\<close>

definition finite_decimal_literal :: "string \<Rightarrow> bool" where
  "finite_decimal_literal v =
     (case scan_decimal v of
        Some (x, rest) \<Rightarrow> rest = [] \<and> isFinite x
      | None \<Rightarrow> False)"

text \<open>Inputs for the examples.\<close>

definition example_criteria :: criteria where
  "example_criteria =
     \<lparr>requestedPosition = Fin 3, tib = Fin 24, monthlyRevenue = Fin 50000, fico = Fin 680,
      state = ''NY'', industry = ''trucking'', isSoleProp = False\<rparr>"

definition example_lender :: "cell \<Rightarrow> lender" where
  "example_lender name =
     [''Lender Name'' \<mapsto> name, ''pos_min'' \<mapsto> Num (Fin 1), ''pos_max'' \<mapsto> Num (Fin 5)]"

definition fico_lender :: "cell \<Rightarrow> lender" where
  "fico_lender threshold = [''Min_FICO'' \<mapsto> threshold]"

section \<open>Properties of the table parser\<close>

lemma dropWhile_keeps: "x \<in> set xs \<Longrightarrow> \<not> P x \<Longrightarrow> x \<in> set (dropWhile P xs)"
  by (induction xs) auto

lemma trim_nonempty_iff: "trim s \<noteq> [] \<longleftrightarrow> has_visible s"
proof
  assume "trim s \<noteq> []"
  then obtain x where "x \<in> set (dropWhile is_space s)" "\<not> is_space x"
    by (auto simp: trim_def dropWhile_eq_Nil_conv)
  then show "has_visible s"
    by (auto simp: has_visible_def list_ex_iff dest: set_dropWhileD)
next
  assume "has_visible s"
  then obtain x where "x \<in> set s" "\<not> is_space x"
    by (auto simp: has_visible_def list_ex_iff)
  then have "x \<in> set (rev (dropWhile is_space s))"
    by (simp add: dropWhile_keeps)
  with \<open>\<not> is_space x\<close> show "trim s \<noteq> []"
    by (auto simp: trim_def dropWhile_eq_Nil_conv)
qed

lemma lf_segments_nonempty: "lf_segments t \<noteq> []"
  by (induction t) (auto split: list.splits)

lemma is_space_cr: "is_space (CHR 0x0D)"
  by (simp add: is_space_def)

lemma has_visible_strip_cr: "has_visible (rev (strip_cr cur)) = has_visible (rev cur)"
  by (cases cur) (auto simp: has_visible_def list_ex_iff is_space_cr)

lemma split_lines_acc_count:
  "length (filter (\<lambda>l. trim l \<noteq> []) (split_lines_acc cur t))
   = length (filter has_visible ((rev cur @ hd (lf_segments t)) # tl (lf_segments t)))"
proof (induction t arbitrary: cur)
  case Nil
  then show ?case by (simp add: trim_nonempty_iff)
next
  case (Cons c cs)
  show ?case
  proof (cases "c = CHR 0x0A")
    case True
    have "length (filter (\<lambda>l. trim l \<noteq> []) (split_lines_acc [] cs))
          = length (filter has_visible (lf_segments cs))"
      using Cons.IH [of "[]"] lf_segments_nonempty [of cs] by simp
    with True show ?thesis
      by (simp add: trim_nonempty_iff has_visible_strip_cr)
  next
    case False
    then show ?thesis
      using Cons.IH [of "c # cur"] lf_segments_nonempty [of cs]
      by (cases "lf_segments cs") simp_all
  qed
qed

lemma nonblank_lines_count: "length (nonblank_lines t) = count_nonblank t"
  using split_lines_acc_count [of "[]" t] lf_segments_nonempty [of t]
  by (simp add: nonblank_lines_def split_lines_def count_nonblank_def)



text \<open>
  C5. The line \<^verbatim>\<open>Acme,"Smith, and Co","He said ""hi"""\<close> is split into the three fields
  \<^verbatim>\<open>Acme\<close>, \<^verbatim>\<open>Smith, and Co\<close> and \<^verbatim>\<open>He said "hi"\<close>, and as cells of a data row they are
  stored as these strings. In general a quote outside quotes opens a quoted part, two
  quotes in a row inside quotes give one quote character, a quote before a comma
  closes the quoted part, a comma inside quotes is kept in the field, and a comma
  outside quotes ends the field.
\<close>

theorem quoted_field_parsing:
  "parse_line ''Acme,\"Smith, and Co\",\"He said \"\"hi\"\"\"''
     = [''Acme'', ''Smith, and Co'', ''He said \"hi\"'']
   \<and> map convert_cell (parse_line ''Acme,\"Smith, and Co\",\"He said \"\"hi\"\"\"'')
     = [Str ''Acme'', Str ''Smith, and Co'', Str ''He said \"hi\"'']
   \<and> parse_fields row cur False (CHR 0x22 # cs) = parse_fields row cur True cs
   \<and> parse_fields row cur True (CHR 0x22 # CHR 0x22 # cs) = parse_fields row (CHR 0x22 # cur) True cs
   \<and> parse_fields row cur True (CHR 0x22 # CHR '','' # cs)
       = parse_fields row cur False (CHR '','' # cs)
   \<and> parse_fields row cur True (CHR '','' # cs) = parse_fields row (CHR '','' # cur) True cs
   \<and> parse_fields row cur False (CHR '','' # cs) = parse_fields (row @ [trim (rev cur)]) [] False cs"
proof (intro conjI)
  show "parse_line ''Acme,\"Smith, and Co\",\"He said \"\"hi\"\"\"''
     = [''Acme'', ''Smith, and Co'', ''He said \"hi\"'']"
    by code_simp
  show "map convert_cell (parse_line ''Acme,\"Smith, and Co\",\"He said \"\"hi\"\"\"'')
     = [Str ''Acme'', Str ''Smith, and Co'', Str ''He said \"hi\"'']"
    by code_simp
  show "parse_fields row cur False (CHR 0x22 # cs) = parse_fields row cur True cs"
    by (cases cs) simp_all
  show "parse_fields row cur True (CHR 0x22 # CHR 0x22 # cs) = parse_fields row (CHR 0x22 # cur) True cs"
    by simp
  show "parse_fields row cur True (CHR 0x22 # CHR '','' # cs)
       = parse_fields row cur False (CHR '','' # cs)"
    by simp
  show "parse_fields row cur True (CHR '','' # cs) = parse_fields row (CHR '','' # cur) True cs"
    by (cases cs) simp_all
  show "parse_fields row cur False (CHR '','' # cs) = parse_fields (row @ [trim (rev cur)]) [] False cs"
    by (cases cs) simp_all
qed

section \<open>Properties of the state tables\<close>

text \<open>
  The names of the table are distinct, so the loop that fills \<^verbatim>\<open>reverseStateMap\<close> stores
  every pair of the table, in order.
\<close>

lemma fold_table_lookup:
  assumes d: "distinct (map fst tbl)"
  shows "fold (\<lambda>name m. case map_of tbl name of None \<Rightarrow> m | Some abbrev \<Rightarrow> m(abbrev \<mapsto> name))
              (map fst tbl) m0
         = fold (\<lambda>(name, abbrev) m. m(abbrev \<mapsto> name)) tbl m0"
proof -
  have "fold (\<lambda>name m. case map_of tbl name of None \<Rightarrow> m | Some abbrev \<Rightarrow> m(abbrev \<mapsto> name))
             (map fst tbl) m0
        = fold ((\<lambda>name m. case map_of tbl name of None \<Rightarrow> m | Some abbrev \<Rightarrow> m(abbrev \<mapsto> name))
                \<circ> fst) tbl m0"
    by (simp add: fold_map)
  also have "\<dots> = fold (\<lambda>(name, abbrev) m. m(abbrev \<mapsto> name)) tbl m0"
  proof (rule fold_cong)
    fix x assume "x \<in> set tbl"
    then have "(fst x, snd x) \<in> set tbl"
      by simp
    then have "map_of tbl (fst x) = Some (snd x)"
      using d by (rule map_of_is_SomeI [rotated])
    then show "((\<lambda>name m. case map_of tbl name of None \<Rightarrow> m | Some abbrev \<Rightarrow> m(abbrev \<mapsto> name))
                \<circ> fst) x = (\<lambda>(name, abbrev) m. m(abbrev \<mapsto> name)) x"
      by (cases x) (simp add: fun_eq_iff)
  qed simp_all
  finally show ?thesis .
qed

lemma distinct_state_names: "distinct (map fst stateAbbreviations)"
  by code_simp

lemma reverseStateMap_fold [code]:
  "reverseStateMap = fold (\<lambda>(name, abbrev) m. m(abbrev \<mapsto> name)) stateAbbreviations Map.empty"
  unfolding reverseStateMap_def by (rule fold_table_lookup [OF distinct_state_names])

text \<open>
  C6. For each of the 50 two-letter codes of the table, \<^verbatim>\<open>getFullStateName\<close> returns a
  name, and \<^verbatim>\<open>normalizeState\<close> maps that name back to the code.
\<close>

theorem state_code_round_trip:
  "length known_codes = 50 \<and> distinct known_codes
   \<and> (\<forall>c \<in> set known_codes.
         map_sum id normalizeState (getFullStateName c) = Inr (JString c))"
  by code_simp

theorem state_code_round_trip_witness:
  "''ny'' \<in> set known_codes
   \<and> map_sum id normalizeState (getFullStateName ''ny'') = Inr (JString ''ny'')"
proof -
  have mem: "''ny'' \<in> set known_codes"
    by code_simp
  with state_code_round_trip show ?thesis
    by blast
qed

section \<open>Properties of numbers\<close>

text \<open>
  An integer below \<open>2 ^ 53\<close> in absolute value is a double: rounding leaves it as it is.
\<close>

lemma round_half_even_int: "round_half_even (of_int k) = k"
  by (simp add: round_half_even_def)

lemma floorlog2_le_53:
  assumes "0 < n" "n < 2 ^ 53"
  shows "1 \<le> floorlog 2 n \<and> floorlog 2 n \<le> 53"
proof -
  have b: "2 ^ (floorlog 2 n - 1) \<le> n"
    using floorlog_bounds [where b = 2 and x = n] assms by simp
  have lt: "(2::nat) ^ (floorlog 2 n - 1) < 2 ^ 53"
    using b assms(2) by (rule le_less_trans)
  have "floorlog 2 n - 1 < 53"
    by (rule power_less_imp_less_exp [OF _ lt]) simp
  moreover have "0 < floorlog 2 n"
    using assms by (simp add: floorlog_def)
  ultimately show ?thesis by simp
qed

lemma round_double_pos_int:
  assumes "0 < z" "z < 2 ^ 53"
  shows "round_double (of_int z) = Fin (of_int z)"
proof -
  define L where "L = floorlog 2 (nat z)"
  have L: "1 \<le> L" "L \<le> 53"
    using floorlog2_le_53 [of "nat z"] assms
    by (simp_all add: L_def nat_less_iff)
  have il: "ilog 2 (of_int z) = int L - 1"
    using assms by (simp add: ilog_def L_def)
  have e: "max (int L - 1) (- 1022) = int L - 1"
    using L by simp
  have ulp: "pow2 (int L - 1 - 52) = 1 / 2 ^ (53 - L)"
  proof (cases "L = 53")
    case True
    then show ?thesis by (simp add: pow2_def)
  next
    case False
    with L have "int L - 1 - 52 < 0" "nat (- (int L - 1 - 52)) = 53 - L"
      by auto
    then show ?thesis by (simp add: pow2_def)
  qed
  have q: "(of_int z :: rat) / (1 / 2 ^ (53 - L)) = of_int (z * 2 ^ (53 - L))"
    by simp
  have v: "of_int (round_half_even ((of_int z :: rat) / (1 / 2 ^ (53 - L)))) * (1 / 2 ^ (53 - L))
           = (of_int z :: rat)"
    unfolding q round_half_even_int by simp
  have "(of_int z :: rat) < 2 ^ 53"
    using assms by (metis of_int_less_iff of_int_numeral of_int_power)
  also have "\<dots> < 2 ^ 1024" by simp
  finally have no: "\<not> pow2 1024 \<le> (of_int z :: rat)"
    by (simp add: pow2_def)
  have nz: "(of_int z :: rat) \<noteq> 0" "(0::rat) < of_int z" "\<bar>of_int z :: rat\<bar> = of_int z"
    using assms by simp_all
  show ?thesis
    unfolding round_double_def Let_def
    by (simp only: nz il e ulp v no if_False if_True)
qed

lemma round_double_int:
  assumes "\<bar>z\<bar> < 2 ^ 53"
  shows "round_double (of_int z) = Fin (of_int z)"
proof (cases "z = 0")
  case True
  then show ?thesis by (simp add: round_double_def)
next
  case False
  show ?thesis
  proof (cases "0 < z")
    case True
    with assms show ?thesis by (simp add: round_double_pos_int)
  next
    case neg: False
    with False assms have p: "0 < - z" "- z < 2 ^ 53" by simp_all
    have pos: "round_double (of_int (- z)) = Fin (of_int (- z))"
      using p by (rule round_double_pos_int)
    have neg_rule: "round_double (- q) =
        (case round_double q of Fin v \<Rightarrow> Fin (- v) | PInf \<Rightarrow> NInf | NInf \<Rightarrow> PInf | NaN \<Rightarrow> NaN)" for q
      by (simp add: round_double_def Let_def)
    have "round_double (of_int z) = round_double (- (of_int (- z)))"
      by simp
    also have "\<dots> = Fin (- of_int (- z))"
      by (simp only: neg_rule pos jsnum.case)
    also have "\<dots> = Fin (of_int z)"
      by simp
    finally show ?thesis .
  qed
qed

lemma round_double_numeral:
  "(numeral k :: int) < 2 ^ 53 \<Longrightarrow> round_double (numeral k) = Fin (numeral k)"
  using round_double_int [of "numeral k"] by simp

lemma round_double_one: "round_double 1 = Fin 1"
  using round_double_int [of 1] by simp

lemma shortest_digits_numeral:
  "shortest_digits (numeral f) k q n0 =
     (let t = q * pow10 (int k - n0);
          lo = \<lfloor>t\<rfloor>;
          hi = \<lceil>t\<rceil>;
          ok_lo = (round_double (of_int lo * pow10 (n0 - int k)) = Fin q);
          ok_hi = (round_double (of_int hi * pow10 (n0 - int k)) = Fin q)
      in if ok_lo \<and> ok_hi then
           (if t - of_int lo < of_int hi - t then (lo, k)
            else if of_int hi - t < t - of_int lo then (hi, k)
            else if even lo then (lo, k) else (hi, k))
         else if ok_lo then (lo, k)
         else if ok_hi then (hi, k)
         else shortest_digits (pred_numeral f) (Suc k) q n0)"
  by (simp add: numeral_eq_Suc)

lemma replicate_numeral:
  "replicate (numeral k) x = x # replicate (pred_numeral k) x"
  by (simp add: numeral_eq_Suc)

lemma floor_rat_numeral: "\<lfloor>numeral a / numeral b :: rat\<rfloor> = numeral a div numeral b"
  using floor_divide_of_int_eq [of "numeral a" "numeral b", where ?'a = rat] by simp

lemma floor_rat_neg_numeral: "\<lfloor>- (numeral a / numeral b) :: rat\<rfloor> = - numeral a div numeral b"
  using floor_divide_of_int_eq [of "- numeral a" "numeral b", where ?'a = rat] by simp

lemma ceiling_rat_numeral: "\<lceil>numeral a / numeral b :: rat\<rceil> = - (- numeral a div numeral b)"
  by (simp add: ceiling_def floor_rat_neg_numeral)

lemmas to_string_eval = replicate_numeral floor_rat_numeral ceiling_rat_numeral
  Number_toString_def positive_to_string_def ilog_def compute_floorlog pow10_def
  shortest_digits_numeral round_double_numeral round_double_one strip_zeros_def layout_digits_def digit_char_def
  Let_def

text \<open>Rules for evaluating the conversions on literals.\<close>

lemmas parse_eval = digit_table_def
  parseFloat_string_def trimStart_def is_space_def scan_decimal_def scan_unsigned_def
  scan_exponent_def is_digit_def digits_value_def digit_value_def pow10_def
  round_double_numeral round_double_one Let_def

lemma parseFloat_undefined: "parseFloat None = NaN"
  by (simp add: parseFloat_def parse_eval)

lemma parseFloat_Num_1: "parseFloat (Some (Num (Fin 1))) = Fin 1"
  by (simp add: parseFloat_def to_string_eval parse_eval)

lemma parseFloat_Num_5: "parseFloat (Some (Num (Fin 5))) = Fin 5"
  by (simp add: parseFloat_def to_string_eval parse_eval)

lemma parseFloat_Num_700: "parseFloat (Some (Num (Fin 700))) = Fin 700"
  by (simp add: parseFloat_def to_string_eval parse_eval)

lemma parseFloat_Str_na: "parseFloat (Some (Str ''n/a'')) = NaN"
  by (simp add: parseFloat_def parse_eval)

lemma Number_toString_700: "Number_toString (Fin 700) = ''700''"
  by (simp add: to_string_eval)

lemma Number_toString_1234: "Number_toString (Fin 1234) = ''1234''"
  by (simp add: to_string_eval)

section \<open>Properties of the rule checks and the engine\<close>

text \<open>
  Every reason that a check returns is a non-empty string, so the engine's test for
  truth of a reason is the test for a reason.
\<close>

lemma position_rule_nonempty: "position_rule l c \<noteq> Some []"
  by (simp add: position_rule_def Let_def)

lemma custom_nonempty: "checkCustomRestrictions l c \<noteq> Some []"
  by (simp add: checkCustomRestrictions_def Let_def)

lemma state_nonempty: "checkStateRestrictions l c \<noteq> Inr (Some [])"
  by (simp add: checkStateRestrictions_def Let_def split: sum.splits)

lemma sole_nonempty: "checkSolePropRestrictions l \<noteq> Some []"
  by (simp add: checkSolePropRestrictions_def Let_def)

lemma industry_nonempty: "checkIndustryRestrictions l c \<noteq> Some []"
  by (simp add: checkIndustryRestrictions_def Let_def)

lemma minimum_nonempty: "checkMinimumRequirements f l c \<noteq> Some []"
  by (simp add: checkMinimumRequirements_def Let_def)

lemma classify_chain:
  assumes "passes_validation l"
  shows "classify f c l =
           (case first_objection (rule_chain f c l) of
              Inl e \<Rightarrow> Faulted e
            | Inr None \<Rightarrow> Qualified l
            | Inr (Some reason) \<Rightarrow> NonQualified (lender_name l) reason)"
proof -
  have v: "lender_name l \<noteq> []" "\<not> length (lender_name l) < 2" "\<not> invalid_name (lender_name l)"
    "\<not> isNaN (parseFloat (l ''pos_min''))" "\<not> isNaN (parseFloat (l ''pos_max''))"
    using assms by (auto simp: passes_validation_def)
  note ne = position_rule_nonempty [of l c] custom_nonempty [of l c] state_nonempty [of l c]
    sole_nonempty [of l] industry_nonempty [of l c] minimum_nonempty [of f l c]
  show ?thesis
  proof (cases "position_rule l c")
    case (Some a)
    with ne v show ?thesis
      by (simp add: classify_def rule_chain_def lender_name_def [symmetric] no_rule_def)
  next
    case r1: None
    show ?thesis
    proof (cases "checkCustomRestrictions l c")
      case (Some a)
      with r1 ne v show ?thesis
        by (simp add: classify_def rule_chain_def lender_name_def [symmetric] no_rule_def)
    next
      case r2: None
      show ?thesis
      proof (cases "checkStateRestrictions l c")
        case (Inl e)
        with r1 r2 ne v show ?thesis
          by (simp add: classify_def rule_chain_def lender_name_def [symmetric] no_rule_def)
      next
        case (Inr r3)
        with r1 r2 ne v show ?thesis
          by (cases r3; cases "checkSolePropRestrictions l"; cases "checkIndustryRestrictions l c";
              cases "checkMinimumRequirements f l c")
             (simp_all add: classify_def rule_chain_def lender_name_def [symmetric] no_rule_def)
      qed
    qed
  qed
qed

lemma classify_AutoDropped_iff: "classify f c l = AutoDropped \<longleftrightarrow> \<not> passes_validation l"
proof (cases "passes_validation l")
  case True
  then show ?thesis
    by (simp add: classify_chain split: sum.splits option.splits)
next
  case False
  then have "classify f c l = AutoDropped"
    by (auto simp: classify_def passes_validation_def lender_name_def [symmetric] Let_def)
  with False show ?thesis by simp
qed

lemma passes_validation_iff: "passes_validation l \<longleftrightarrow> \<not> drop_condition l"
  by (auto simp: passes_validation_def drop_condition_def invalid_name_def)


lemma example_lender_cells:
  "example_lender n ''Lender Name'' = Some n"
  "example_lender n ''pos_min'' = Some (Num (Fin 1))"
  "example_lender n ''pos_max'' = Some (Num (Fin 5))"
  by (simp_all add: example_lender_def)








section \<open>The FICO tolerance\<close>

lemma fico_blocks_iff:
  "fico_blocks f l c \<longleftrightarrow>
     earlier_thresholds_pass l c \<and> \<not> isNaN (parseFloat (l ''Min_FICO''))
     \<and> js_lt (fico c) (js_sub (parseFloat (l ''Min_FICO'')) (Fin 20))"
  by (simp add: fico_blocks_def fico_reason_def earlier_thresholds_pass_def
      checkMinimumRequirements_def Let_def)

lemma not_blocked_None:
  "earlier_thresholds_pass l c \<Longrightarrow> \<not> fico_blocks f l c \<Longrightarrow> checkMinimumRequirements f l c = None"
  by (simp add: fico_blocks_def fico_reason_def earlier_thresholds_pass_def
      checkMinimumRequirements_def Let_def split: if_splits)

lemma js_lt_sub_int:
  assumes "\<bar>m\<bar> < 2 ^ 52"
  shows "js_lt (Fin (of_int s)) (js_sub (Fin (of_int m)) (Fin 20)) \<longleftrightarrow> s < m - 20"
proof -
  have "\<bar>m - 20\<bar> < 2 ^ 53"
    using assms by simp
  then have "round_double (of_int (m - 20)) = Fin (of_int (m - 20))"
    by (rule round_double_int)
  then have "js_sub (Fin (of_int m)) (Fin 20) = Fin (of_int (m - 20))"
    by simp
  moreover have "(of_int s :: rat) < of_int (m - 20) \<longleftrightarrow> s < m - 20"
    by (rule of_int_less_iff)
  ultimately show ?thesis
    by (simp only: js_lt.simps)
qed

lemma fico_lender_cells:
  "fico_lender t ''Min_FICO'' = Some t"
  "fico_lender t ''Min_TIB_Months'' = None"
  "fico_lender t ''Min_Monthly_Revenue'' = None"
  by (simp_all add: fico_lender_def)

lemma earlier_pass_fico_lender: "earlier_thresholds_pass (fico_lender t) c"
  by (simp add: earlier_thresholds_pass_def fico_lender_cells parseFloat_undefined isNaN_def)

lemma earlier_pass_empty: "earlier_thresholds_pass Map.empty c"
  by (simp add: earlier_thresholds_pass_def parseFloat_undefined isNaN_def)

text \<open>
  C3. The FICO check blocks exactly when it is reached (the time-in-business and
  revenue thresholds do not object), \<^verbatim>\<open>Min_FICO\<close> parses to a number \<open>m\<close>, and the merchant's
  score is less than \<open>m - 20\<close>; for an integer threshold and an integer score this is the
  comparison of integers. With \<^verbatim>\<open>Min_FICO\<close> 700 a score of 680 is not blocked and a score
  of 679 is; without \<^verbatim>\<open>Min_FICO\<close>, or with one that does not parse, a score of 300 is not
  blocked.
\<close>

theorem fico_tolerance:
  "(fico_blocks f l c \<longleftrightarrow>
      earlier_thresholds_pass l c \<and> \<not> isNaN (parseFloat (l ''Min_FICO''))
      \<and> js_lt (fico c) (js_sub (parseFloat (l ''Min_FICO'')) (Fin 20)))
   \<and> (earlier_thresholds_pass l c \<and> parseFloat (l ''Min_FICO'') = Fin (of_int m)
       \<and> \<bar>m\<bar> < 2 ^ 52 \<and> fico c = Fin (of_int s) \<longrightarrow>
         (fico_blocks f l c \<longleftrightarrow> s < m - 20))
   \<and> (earlier_thresholds_pass l c \<and> \<not> fico_blocks f l c \<longrightarrow>
         checkMinimumRequirements f l c = None)
   \<and> checkMinimumRequirements f (fico_lender (Num (Fin 700))) (c\<lparr>fico := Fin 680\<rparr>) = None
   \<and> checkMinimumRequirements f (fico_lender (Num (Fin 700))) (c\<lparr>fico := Fin 679\<rparr>)
       = Some ''FICO - Min 700 (with 20pt tolerance)''
   \<and> checkMinimumRequirements f Map.empty (c\<lparr>fico := Fin 300\<rparr>) = None
   \<and> checkMinimumRequirements f (fico_lender (Str ''n/a'')) (c\<lparr>fico := Fin 300\<rparr>) = None"
proof (intro conjI)
  show "fico_blocks f l c \<longleftrightarrow>
      earlier_thresholds_pass l c \<and> \<not> isNaN (parseFloat (l ''Min_FICO''))
      \<and> js_lt (fico c) (js_sub (parseFloat (l ''Min_FICO'')) (Fin 20))"
    by (rule fico_blocks_iff)
  show "earlier_thresholds_pass l c \<and> parseFloat (l ''Min_FICO'') = Fin (of_int m)
       \<and> \<bar>m\<bar> < 2 ^ 52 \<and> fico c = Fin (of_int s) \<longrightarrow>
         (fico_blocks f l c \<longleftrightarrow> s < m - 20)"
    by (simp add: fico_blocks_iff js_lt_sub_int isNaN_def del: js_sub.simps)
  show "earlier_thresholds_pass l c \<and> \<not> fico_blocks f l c \<longrightarrow>
         checkMinimumRequirements f l c = None"
    by (simp add: not_blocked_None)
  show "checkMinimumRequirements f (fico_lender (Num (Fin 700))) (c\<lparr>fico := Fin 680\<rparr>) = None"
    by (simp add: checkMinimumRequirements_def fico_lender_cells parseFloat_undefined
        parseFloat_Num_700 round_double_numeral isNaN_def)
  show "checkMinimumRequirements f (fico_lender (Num (Fin 700))) (c\<lparr>fico := Fin 679\<rparr>)
       = Some ''FICO - Min 700 (with 20pt tolerance)''"
    by (simp add: checkMinimumRequirements_def fico_lender_cells parseFloat_undefined
        parseFloat_Num_700 round_double_numeral Number_toString_700 isNaN_def)
  show "checkMinimumRequirements f Map.empty (c\<lparr>fico := Fin 300\<rparr>) = None"
    by (simp add: checkMinimumRequirements_def parseFloat_undefined isNaN_def)
  show "checkMinimumRequirements f (fico_lender (Str ''n/a'')) (c\<lparr>fico := Fin 300\<rparr>) = None"
    by (simp add: checkMinimumRequirements_def fico_lender_cells parseFloat_undefined
        parseFloat_Str_na isNaN_def)
qed

theorem fico_tolerance_witness:
  "earlier_thresholds_pass (fico_lender (Num (Fin 700))) (example_criteria\<lparr>fico := Fin 679\<rparr>)
   \<and> parseFloat (fico_lender (Num (Fin 700)) ''Min_FICO'') = Fin 700
   \<and> fico_blocks Number_toString (fico_lender (Num (Fin 700))) (example_criteria\<lparr>fico := Fin 679\<rparr>)
   \<and> \<not> fico_blocks Number_toString (fico_lender (Num (Fin 700))) (example_criteria\<lparr>fico := Fin 680\<rparr>)
   \<and> checkMinimumRequirements Number_toString (fico_lender (Num (Fin 700)))
         (example_criteria\<lparr>fico := Fin 680\<rparr>) = None"
proof -
  have p: "parseFloat (fico_lender (Num (Fin 700)) ''Min_FICO'') = Fin (of_int 700)"
    by (simp add: fico_lender_cells parseFloat_Num_700)
  have a: "fico (example_criteria\<lparr>fico := Fin 679\<rparr>) = Fin (of_int 679)"
    by simp
  have b: "fico (example_criteria\<lparr>fico := Fin 680\<rparr>) = Fin (of_int 680)"
    by simp
  have m: "\<bar>700 :: int\<bar> < 2 ^ 52"
    by simp
  show ?thesis
    using p a b m
      earlier_pass_fico_lender [of "Num (Fin 700)" "example_criteria\<lparr>fico := Fin 679\<rparr>"]
      earlier_pass_fico_lender [of "Num (Fin 700)" "example_criteria\<lparr>fico := Fin 680\<rparr>"]
      fico_tolerance [of Number_toString "fico_lender (Num (Fin 700))"
        "example_criteria\<lparr>fico := Fin 679\<rparr>" 700 679]
      fico_tolerance [of Number_toString "fico_lender (Num (Fin 700))"
        "example_criteria\<lparr>fico := Fin 680\<rparr>" 700 680]
    by (simp add: round_double_numeral isNaN_def)
qed

section \<open>Structural validation\<close>

lemma name_digits_Str: "lender_name (example_lender (Str ''1234'')) = ''1234''"
  by (simp add: lender_name_def example_lender_cells or_empty_def trim_def is_space_def)

lemma name_digits_Num: "lender_name (example_lender (Num (Fin 1234))) = ''1234''"
  by (simp add: lender_name_def example_lender_cells or_empty_def Number_toString_1234
      trim_def is_space_def)

lemma drop_digits_Str: "drop_condition (example_lender (Str ''1234''))"
  by (simp add: drop_condition_def name_digits_Str is_digit_def)

lemma drop_digits_Num: "drop_condition (example_lender (Num (Fin 1234)))"
  by (simp add: drop_condition_def name_digits_Num is_digit_def)

lemma name_pound:
  "lender_name (example_lender (Str (CHR 0xA3 # ''5 Capital''))) = CHR 0xA3 # ''5 Capital''"
  by (simp add: lender_name_def example_lender_cells or_empty_def trim_def is_space_def)

lemma invalid_pound: "\<not> invalid_name (CHR 0xA3 # ''5 Capital'')"
  by code_simp

lemma any_currency_pound:
  "drop_condition_any_currency (example_lender (Str (CHR 0xA3 # ''5 Capital'')))"
  by (simp add: drop_condition_any_currency_def name_pound is_currency_symbol_def)

lemma passes_pound: "passes_validation (example_lender (Str (CHR 0xA3 # ''5 Capital'')))"
  by (simp add: passes_validation_def name_pound invalid_pound example_lender_cells
      parseFloat_Num_1 parseFloat_Num_5 isNaN_def)

text \<open>
  C4, as stated with any currency symbol, fails: a lender named with a pound sign,
  with position bounds 1 and 5, is not dropped.
\<close>

theorem any_currency_symbol_counterexample:
  "\<not> (classify Number_toString example_criteria (example_lender (Str (CHR 0xA3 # ''5 Capital'')))
          = AutoDropped
        \<longleftrightarrow> drop_condition_any_currency (example_lender (Str (CHR 0xA3 # ''5 Capital''))))"
  by (simp add: classify_AutoDropped_iff passes_pound any_currency_pound)

text \<open>
  C4, amended. The engine drops a lender before any rule check exactly when its name
  (the cell as a string, trimmed) is empty or shorter than 2 characters, contains a
  dollar sign, consists of digits only, contains ``total'' or ``summary'' in any case,
  or \<^verbatim>\<open>pos_min\<close> or \<^verbatim>\<open>pos_max\<close> is missing or does not parse as a number. The row with
  name 1234 (as a string, or as the number the parser stores) and bounds 1 and 5 is
  dropped.
\<close>

theorem auto_dropped_iff:
  "(classify f c l = AutoDropped \<longleftrightarrow> drop_condition l)
   \<and> classify f c (example_lender (Str ''1234'')) = AutoDropped
   \<and> classify f c (example_lender (Num (Fin 1234))) = AutoDropped"
  by (simp add: classify_AutoDropped_iff passes_validation_iff drop_digits_Str drop_digits_Num)

theorem auto_dropped_iff_witness:
  "drop_condition (example_lender (Num (Fin 1234)))
   \<and> classify Number_toString example_criteria (example_lender (Num (Fin 1234))) = AutoDropped"
  using auto_dropped_iff
    [of Number_toString example_criteria "example_lender (Num (Fin 1234))"]
    drop_digits_Num
  by simp

section \<open>Partition and frame\<close>

lemma classify_Qualified: "classify f c l = Qualified l' \<Longrightarrow> l' = l"
  by (auto simp: classify_def Let_def split: if_splits sum.splits)


lemma run_lenders_qualified:
  "qualifiedLenders (run_lenders f c i ls r)
   = qualifiedLenders r @ filter (\<lambda>l. is_qualified (classify f c l)) ls"
proof (induction ls arbitrary: i r)
  case Nil
  then show ?case by simp
next
  case (Cons l ls)
  show ?case
    by (cases "classify f c l")
       (auto simp: Cons.IH record_outcome_def dest: classify_Qualified)
qed

lemma run_lenders_non_qualified:
  "length (nonQualifiedLenders (run_lenders f c i ls r))
   = length (nonQualifiedLenders r) + length (filter (\<lambda>l. is_non_qualified (classify f c l)) ls)"
proof (induction ls arbitrary: i r)
  case Nil
  then show ?case by simp
next
  case (Cons l ls)
  show ?case
    by (cases "classify f c l") (simp_all add: Cons.IH record_outcome_def)
qed

lemma run_lenders_dropped:
  "autoDroppedCount (run_lenders f c i ls r)
   = autoDroppedCount r + length (filter (\<lambda>l. is_dropped (classify f c l)) ls)"
proof (induction ls arbitrary: i r)
  case Nil
  then show ?case by simp
next
  case (Cons l ls)
  show ?case
    by (cases "classify f c l") (simp_all add: Cons.IH record_outcome_def)
qed

lemma three_filters:
  "length (filter (\<lambda>l. is_qualified (k l)) ls) + length (filter (\<lambda>l. is_non_qualified (k l)) ls)
   + length (filter (\<lambda>l. is_dropped (k l)) ls) = length ls"
proof (induction ls)
  case Nil
  then show ?case by simp
next
  case (Cons l ls)
  then show ?case by (cases "k l") simp_all
qed

text \<open>
  C1. The loop counts every row in exactly one bucket, for every list of rows: the
  qualified lenders are the rows classified qualified, the non-qualified entries are as
  many as the rows classified non-qualified, the count of dropped rows is the number of
  rows dropped or faulted, and the three numbers add up to the number of rows. When
  data is loaded and has at least one row, this is the result the engine hands on.
\<close>

theorem partition_completeness:
  "(qualifiedLenders (run_lenders f c 0 rows empty_results)
      = filter (\<lambda>l. is_qualified (classify f c l)) rows
    \<and> length (nonQualifiedLenders (run_lenders f c 0 rows empty_results))
      = length (filter (\<lambda>l. is_non_qualified (classify f c l)) rows)
    \<and> autoDroppedCount (run_lenders f c 0 rows empty_results)
      = length (filter (\<lambda>l. is_dropped (classify f c l)) rows)
    \<and> length (qualifiedLenders (run_lenders f c 0 rows empty_results))
      + length (nonQualifiedLenders (run_lenders f c 0 rows empty_results))
      + autoDroppedCount (run_lenders f c 0 rows empty_results)
      = length rows)
   \<and> (csvData g = Some rows \<and> rows \<noteq> [] \<longrightarrow>
        fst (processLenders f c g) = DisplayResults (run_lenders f c 0 rows empty_results))"
  using three_filters [of "classify f c" rows]
  by (simp add: processLenders_def run_lenders_qualified run_lenders_non_qualified
      run_lenders_dropped empty_results_def)

theorem partition_completeness_witness:
  "csvData \<lparr>csvData = Some [example_lender (Str ''Lexio Capital''), example_lender (Str ''1234'')],
            debugMode = False\<rparr>
     = Some [example_lender (Str ''Lexio Capital''), example_lender (Str ''1234'')]
   \<and> [example_lender (Str ''Lexio Capital''), example_lender (Str ''1234'')] \<noteq> []
   \<and> (\<exists>r. fst (processLenders Number_toString example_criteria
             \<lparr>csvData = Some [example_lender (Str ''Lexio Capital''), example_lender (Str ''1234'')],
              debugMode = False\<rparr>) = DisplayResults r
       \<and> length (qualifiedLenders r) + length (nonQualifiedLenders r) + autoDroppedCount r = 2)"
proof -
  let ?rows = "[example_lender (Str ''Lexio Capital''), example_lender (Str ''1234'')]"
  let ?g = "\<lparr>csvData = Some ?rows, debugMode = False\<rparr>"
  let ?r = "run_lenders Number_toString example_criteria 0 ?rows empty_results"
  note th = partition_completeness [of Number_toString example_criteria ?rows ?g]
  have a: "csvData ?g = Some ?rows"
    by simp
  have b: "?rows \<noteq> []"
    by simp
  from th a b have shown: "fst (processLenders Number_toString example_criteria ?g) = DisplayResults ?r"
    by blast
  from th have "length (qualifiedLenders ?r) + length (nonQualifiedLenders ?r) + autoDroppedCount ?r
      = length ?rows"
    by blast
  then have total: "length (qualifiedLenders ?r) + length (nonQualifiedLenders ?r)
      + autoDroppedCount ?r = 2"
    by simp
  from a b shown total show ?thesis
    by blast
qed



section \<open>Properties of cell conversion\<close>

text \<open>A trimmed string has no white space at either end, so trimming it again changes nothing.\<close>

lemma dropWhile_id: "xs = [] \<or> \<not> P (hd xs) \<Longrightarrow> dropWhile P xs = xs"
  by (cases xs) auto

lemma trim_last: "rev (trim s) = [] \<or> \<not> is_space (hd (rev (trim s)))"
proof -
  have r: "rev (trim s) = dropWhile is_space (rev (dropWhile is_space s))"
    by (simp add: trim_def)
  show ?thesis
    unfolding r using hd_dropWhile [of is_space "rev (dropWhile is_space s)"] by blast
qed

lemma trim_first: "trim s = [] \<or> \<not> is_space (hd (trim s))"
proof (cases "trim s = []")
  case True
  then show ?thesis by simp
next
  case False
  define u where "u = dropWhile is_space s"
  have w: "trim s = rev (dropWhile is_space (rev u))"
    by (simp add: trim_def u_def)
  have "rev (dropWhile is_space (rev u)) @ rev (takeWhile is_space (rev u))
        = rev (takeWhile is_space (rev u) @ dropWhile is_space (rev u))"
    by (simp only: rev_append)
  also have "\<dots> = u"
    by (simp only: takeWhile_dropWhile_id rev_rev_ident)
  finally have u: "u = trim s @ rev (takeWhile is_space (rev u))"
    by (simp add: w)
  with False have "hd u = hd (trim s)"
    by (metis hd_append2)
  moreover have "u \<noteq> []"
    using u False by auto
  then have "\<not> is_space (hd u)"
    unfolding u_def by (rule hd_dropWhile)
  ultimately show ?thesis by simp
qed

lemma trimStart_trim: "trimStart (trim s) = trim s"
  unfolding trimStart_def by (rule dropWhile_id) (rule trim_first)

lemma trim_idem: "trim (trim s) = trim s"
proof -
  have "dropWhile is_space (trim s) = trim s"
    by (rule dropWhile_id) (rule trim_first)
  moreover have "dropWhile is_space (rev (trim s)) = rev (trim s)"
    by (rule dropWhile_id) (rule trim_last)
  ultimately show ?thesis
    by (simp add: trim_def [of "trim s"])
qed

lemma parseFloat_radix:
  assumes "scan_radix v = Some x"
  shows "parseFloat_string v = Fin 0"
proof -
  from assms obtain p ds base where v: "v = CHR ''0'' # p # ds" and r: "radix_of p = Some base"
    by (auto simp: scan_radix_def split: list.splits if_splits option.splits)
  from r have "p \<in> {CHR ''x'', CHR ''X'', CHR ''o'', CHR ''O'', CHR ''b'', CHR ''B''}"
    by (auto simp: radix_of_def split: if_splits)
  then show ?thesis
    unfolding v by (auto simp: parse_eval round_double_def)
qed

lemma parseFloat_of_zero:
  assumes "trim raw \<noteq> []" and "StringToNumber (trim raw) = Fin 0"
  shows "parseFloat_string (trim raw) = Fin 0"
proof (cases "scan_radix (trim raw)")
  case (Some x)
  then show ?thesis by (rule parseFloat_radix)
next
  case None
  with assms have "scan_decimal (trim raw) = Some (Fin 0, [])"
    by (auto simp: StringToNumber_def trim_idem split: option.splits list.splits prod.splits)
  then show ?thesis
    by (simp add: parseFloat_string_def trimStart_trim)
qed

lemma convert_cell_zero:
  assumes "trim raw \<noteq> []" and "StringToNumber (trim raw) = Fin 0"
  shows "convert_cell raw = Num (Fin 0)"
  using assms parseFloat_of_zero [OF assms]
  by (simp add: convert_cell_def isNaN_def isFinite_def)

lemma round_double_not_NaN: "round_double q \<noteq> NaN"
  by (simp add: round_double_def Let_def)

lemma scan_decimal_not_NaN: "scan_decimal v = Some (x, rest) \<Longrightarrow> x \<noteq> NaN"
  by (auto simp: scan_decimal_def Let_def round_double_not_NaN
      split: prod.splits if_splits option.splits)

text \<open>
  Apart from the literals with a radix prefix, a cell is stored as a number exactly when
  its trimmed text is a decimal literal with a finite value.
\<close>

lemma convert_cell_without_radix:
  assumes "scan_radix (trim raw) = None"
  shows "convert_cell raw =
           (if finite_decimal_literal (trim raw) then Num (parseFloat_string (trim raw))
            else Str (trim raw))"
proof (cases "trim raw = []")
  case True
  then show ?thesis
    by (simp add: convert_cell_def finite_decimal_literal_def scan_decimal_def scan_unsigned_def)
next
  case False
  show ?thesis
  proof (cases "scan_decimal (trim raw)")
    case None
    with assms False show ?thesis
      by (simp add: convert_cell_def finite_decimal_literal_def StringToNumber_def trim_idem
          isNaN_def)
  next
    case (Some p)
    obtain x rest where p: "p = (x, rest)" by (cases p)
    have x: "x \<noteq> NaN"
      using Some p by (auto dest: scan_decimal_not_NaN)
    show ?thesis
      using assms False Some p x
      by (cases rest; cases x)
         (simp_all add: convert_cell_def finite_decimal_literal_def StringToNumber_def trim_idem
          isNaN_def isFinite_def parseFloat_string_def trimStart_trim)
  qed
qed

lemma trim_hex: "trim ''0x1A'' = ''0x1A''"
  by (simp add: trim_def is_space_def)

lemma StringToNumber_hex: "StringToNumber ''0x1A'' = Fin 26"
  by (simp add: StringToNumber_def trim_hex scan_radix_def radix_of_def is_radix_digit_def
      parse_eval)

lemma parseFloat_hex: "parseFloat_string ''0x1A'' = Fin 0"
  by (simp add: parse_eval round_double_def)

text \<open>
  C8. The cell \<^verbatim>\<open>0x1A\<close> is not a decimal literal, yet it is stored as the number 0 and not
  as its text: \<^verbatim>\<open>isNaN\<close> accepts the hexadecimal literal (its value is 26), and \<^verbatim>\<open>parseFloat\<close>
  then reads only the leading \<^verbatim>\<open>0\<close>.
\<close>

theorem hex_cell_stored_as_zero:
  "convert_cell ''0x1A'' = Num (Fin 0)
   \<and> trim ''0x1A'' = ''0x1A''
   \<and> \<not> finite_decimal_literal ''0x1A''
   \<and> StringToNumber ''0x1A'' = Fin 26"
  by (simp add: convert_cell_def trim_hex StringToNumber_hex parseFloat_hex isNaN_def isFinite_def
      finite_decimal_literal_def parse_eval round_double_def)

lemma fill_row_append:
  "fill_row (a @ b) i cells row = fill_row b (i + length a) cells (fill_row a i cells row)"
  by (induction a arbitrary: i row) simp_all

lemma fill_row_absent: "k \<notin> set hs \<Longrightarrow> fill_row hs i cells row k = row k"
  by (induction hs arbitrary: i row) (auto simp: set_property_def)

lemma make_row_at:
  assumes "i < length headers" and "headers ! i = k" and "k \<notin> set (drop (Suc i) headers)"
    and "k \<noteq> ''__proto__''"
  shows "make_row headers cells k = Some (convert_cell (field_at cells i))"
proof -
  have h: "headers = take i headers @ k # drop (Suc i) headers"
    using id_take_nth_drop [OF assms(1)] assms(2) by simp
  have "make_row headers cells k
        = fill_row (k # drop (Suc i) headers) (0 + length (take i headers)) cells
            (fill_row (take i headers) 0 cells Map.empty) k"
    unfolding make_row_def by (subst h) (simp only: fill_row_append)
  also have "\<dots> = Some (convert_cell (field_at cells i))"
    using assms by (simp add: fill_row_absent set_property_def min_def)
  finally show ?thesis .
qed

lemma zero_not_kept: "row ''Lender Name'' = Some (Num (Fin 0)) \<Longrightarrow> \<not> has_lender_name row"
  by (simp add: has_lender_name_def)

lemma parseCSV_rows_kept: "parseCSV t = Inr rows \<Longrightarrow> row \<in> set rows \<Longrightarrow> has_lender_name row"
  by (auto simp: parseCSV_def Let_def split: if_splits)

lemma StringToNumber_0: "StringToNumber ''0'' = Fin 0"
  by (simp add: StringToNumber_def trim_def scan_radix_def parse_eval round_double_def)

lemma trim_0: "trim ''0'' = ''0''"
  by (simp add: trim_def is_space_def)

lemma zero_row_example:
  "(case parseCSV (''Lender Name'' @ [CHR 0x0A] @ ''0'' @ [CHR 0x0A] @ ''Acme'') of
      Inl e \<Rightarrow> False
    | Inr rows \<Rightarrow> map (\<lambda>row. row ''Lender Name'') rows = [Some (Str ''Acme'')])"
  by code_simp

text \<open>
  C10. A cell whose trimmed text is not empty and is a literal of value 0 is stored as
  the number 0. When that cell stands under the header \<^verbatim>\<open>Lender Name\<close> the row has the
  number 0 as its name and is discarded; every row that \<^verbatim>\<open>parseCSV\<close> returns has a name
  that is truthy and not blank. In a table with the names \<^verbatim>\<open>0\<close> and \<^verbatim>\<open>Acme\<close> only the second
  row is kept.
\<close>

theorem zero_name_row_discarded:
  "(trim raw \<noteq> [] \<and> StringToNumber (trim raw) = Fin 0 \<longrightarrow> convert_cell raw = Num (Fin 0))
   \<and> (i < length headers \<and> headers ! i = ''Lender Name''
       \<and> ''Lender Name'' \<notin> set (drop (Suc i) headers)
       \<and> trim (field_at cells i) \<noteq> [] \<and> StringToNumber (trim (field_at cells i)) = Fin 0 \<longrightarrow>
         make_row headers cells ''Lender Name'' = Some (Num (Fin 0))
         \<and> \<not> has_lender_name (make_row headers cells))
   \<and> (parseCSV t = Inr rows \<longrightarrow>
         (\<forall>row \<in> set rows. truthy (row ''Lender Name'')
                            \<and> trim (ToString (row ''Lender Name'')) \<noteq> []))
   \<and> convert_cell ''0'' = Num (Fin 0)
   \<and> (case parseCSV (''Lender Name'' @ [CHR 0x0A] @ ''0'' @ [CHR 0x0A] @ ''Acme'') of
         Inl e \<Rightarrow> False
       | Inr rows \<Rightarrow> map (\<lambda>row. row ''Lender Name'') rows = [Some (Str ''Acme'')])"
proof (intro conjI impI)
  assume "trim raw \<noteq> [] \<and> StringToNumber (trim raw) = Fin 0"
  then show "convert_cell raw = Num (Fin 0)"
    by (simp add: convert_cell_zero)
next
  assume a: "i < length headers \<and> headers ! i = ''Lender Name''
       \<and> ''Lender Name'' \<notin> set (drop (Suc i) headers)
       \<and> trim (field_at cells i) \<noteq> [] \<and> StringToNumber (trim (field_at cells i)) = Fin 0"
  then have "make_row headers cells ''Lender Name'' = Some (convert_cell (field_at cells i))"
    by (intro make_row_at) simp_all
  with a show m: "make_row headers cells ''Lender Name'' = Some (Num (Fin 0))"
    by (simp add: convert_cell_zero)
  then show "\<not> has_lender_name (make_row headers cells)"
    by (rule zero_not_kept)
next
  assume "parseCSV t = Inr rows"
  then show "\<forall>row \<in> set rows. truthy (row ''Lender Name'')
                            \<and> trim (ToString (row ''Lender Name'')) \<noteq> []"
    using parseCSV_rows_kept [of t rows] by (auto simp: has_lender_name_def)
next
  show "convert_cell ''0'' = Num (Fin 0)"
    by (rule convert_cell_zero) (simp_all add: trim_0 StringToNumber_0)
next
  show "(case parseCSV (''Lender Name'' @ [CHR 0x0A] @ ''0'' @ [CHR 0x0A] @ ''Acme'') of
         Inl e \<Rightarrow> False
       | Inr rows \<Rightarrow> map (\<lambda>row. row ''Lender Name'') rows = [Some (Str ''Acme'')])"
    by (rule zero_row_example)
qed

theorem zero_name_row_discarded_witness:
  "trim ''0'' \<noteq> [] \<and> StringToNumber (trim ''0'') = Fin 0
   \<and> (0::nat) < length [''Lender Name'', ''pos_min'']
   \<and> [''Lender Name'', ''pos_min''] ! 0 = ''Lender Name''
   \<and> ''Lender Name'' \<notin> set (drop (Suc 0) [''Lender Name'', ''pos_min''])
   \<and> trim (field_at [''0'', ''1''] 0) \<noteq> []
   \<and> StringToNumber (trim (field_at [''0'', ''1''] 0)) = Fin 0
   \<and> make_row [''Lender Name'', ''pos_min''] [''0'', ''1''] ''Lender Name'' = Some (Num (Fin 0))
   \<and> \<not> has_lender_name (make_row [''Lender Name'', ''pos_min''] [''0'', ''1''])
   \<and> (\<exists>rows. parseCSV (''Lender Name'' @ [CHR 0x0A] @ ''0'' @ [CHR 0x0A] @ ''Acme'') = Inr rows
         \<and> (\<forall>row \<in> set rows. truthy (row ''Lender Name'')
                              \<and> trim (ToString (row ''Lender Name'')) \<noteq> []))"
proof -
  have lines: "\<not> count_nonblank (''Lender Name'' @ [CHR 0x0A] @ ''0'' @ [CHR 0x0A] @ ''Acme'') < 2"
    by code_simp
  then obtain rows
    where rows: "parseCSV (''Lender Name'' @ [CHR 0x0A] @ ''0'' @ [CHR 0x0A] @ ''Acme'') = Inr rows"
    by (simp add: parseCSV_def Let_def nonblank_lines_count)
  show ?thesis
    using rows
      zero_name_row_discarded [of "''0''" 0 "[''Lender Name'', ''pos_min'']" "[''0'', ''1'']"
        "''Lender Name'' @ [CHR 0x0A] @ ''0'' @ [CHR 0x0A] @ ''Acme''" rows]
    by (simp add: trim_0 StringToNumber_0 field_at_def)
qed

end
